theory Spec2Isabelle
  imports Complex_Main
begin

section \<open>JavaScript values of the dashboard server\<close>

text \<open>
  The repository holds the server in two variants: \<^verbatim>\<open>server.js\<close>, whose current
  version (the second in the file, with the cache and the fallback quotes) tracks WTI,
  Brent, RBOB and heating oil and computes the 3-2-1 crack, and a variant that tracks
  WTI, Brent and RBOB, estimates three further products and computes a crack for each.
  Both compute on JavaScript numbers and on the absent values \<^verbatim>\<open>undefined\<close> and
  \<^verbatim>\<open>null\<close> that optional chaining and JSON produce. A number is \<^verbatim>\<open>NaN\<close>, an
  infinity or a finite value, which is a rational. The sign of zero is not tracked.
\<close>

datatype jsnum = NaN | PInf | NInf | Fin rat

datatype jsval = Undefined | Null | Num jsnum

text \<open>A finite number given by its exact value.\<close>

abbreviation num :: "rat \<Rightarrow> jsval" where
  "num x \<equiv> Num (Fin x)"

text \<open>\<^verbatim>\<open>ToNumber\<close> of the language: \<^verbatim>\<open>undefined\<close> is \<^verbatim>\<open>NaN\<close>, \<^verbatim>\<open>null\<close> is 0.\<close>

fun ToNumber :: "jsval \<Rightarrow> jsnum" where
  "ToNumber Undefined = NaN"
| "ToNumber Null = Fin 0"
| "ToNumber (Num n) = n"

text \<open>Truthiness: \<^verbatim>\<open>undefined\<close>, \<^verbatim>\<open>null\<close>, \<^verbatim>\<open>NaN\<close> and 0 are falsy.\<close>

fun truthy :: "jsval \<Rightarrow> bool" where
  "truthy Undefined = False"
| "truthy Null = False"
| "truthy (Num NaN) = False"
| "truthy (Num (Fin x)) = (x \<noteq> 0)"
| "truthy (Num PInf) = True"
| "truthy (Num NInf) = True"

text \<open>\<^verbatim>\<open>a || b\<close>\<close>

definition js_or :: "jsval \<Rightarrow> jsval \<Rightarrow> jsval" where
  "js_or a b = (if truthy a then a else b)"

subsection \<open>Rounding\<close>

text \<open>
  Every arithmetic operation and every number literal of the source yields the exact
  result rounded to a double. The rounding is a parameter of the operations, and through
  them of every function of the program:
  \<^item> \<open>binary64\<close> is the rounding of the language: to the nearest double, ties to the
    even significand, gradual underflow, overflow to an infinity;
  \<^item> \<open>exact\<close> does not round; it gives the arithmetic in which the specification
    writes its formulas and its decimal examples.
\<close>

type_synonym rounding = "rat \<Rightarrow> jsnum"

definition exact :: rounding where
  "exact x = Fin x"

definition signed_inf :: "bool \<Rightarrow> jsnum" where
  "signed_inf negative = (if negative then NInf else PInf)"

text \<open>The number of binary digits of a positive integer.\<close>

function bits :: "int \<Rightarrow> nat" where
  "bits n = (if n \<le> 0 then 0 else Suc (bits (n div 2)))"
  by pat_completeness auto
termination
  by (relation "measure nat") auto

declare bits.simps [simp del]

definition pow2 :: "int \<Rightarrow> rat" where
  "pow2 e = (if 0 \<le> e then 2 ^ nat e else 1 / 2 ^ nat (- e))"

text \<open>For \<open>x > 0\<close>, the \<open>e\<close> with \<open>2 ^ e \<le> x < 2 ^ (e + 1)\<close>.\<close>

definition exponent :: "rat \<Rightarrow> int" where
  "exponent x =
     (if 1 \<le> x then int (bits \<lfloor>x\<rfloor>) - 1
      else let k = int (bits \<lfloor>1 / x\<rfloor>) - 1
           in if x = pow2 (- k) then - k else - k - 1)"

definition round_half_even :: "rat \<Rightarrow> int" where
  "round_half_even x =
     (let f = \<lfloor>x\<rfloor>; d = x - of_int f
      in if d < 1 / 2 then f else if 1 / 2 < d then f + 1 else if even f then f else f + 1)"

text \<open>
  A double has a significand of 53 bits and an exponent from -1022 to 1023: the unit in
  the last place of \<open>x\<close> is \<open>2 ^ (e - 52)\<close> for the exponent \<open>e\<close> of \<open>x\<close>, at least -1022;
  \<open>x\<close> is rounded to a multiple of that unit, and a result of exponent 1024 or more is
  an infinity.
\<close>

definition binary64 :: rounding where
  "binary64 x =
     (if x = 0 then Fin 0
      else let e = max (exponent \<bar>x\<bar>) (- 1022);
               ulp = pow2 (e - 52);
               y = of_int (round_half_even (x / ulp)) * ulp
           in if 1024 \<le> exponent \<bar>y\<bar> then signed_inf (x < 0) else Fin y)"

subsection \<open>Arithmetic\<close>

fun num_neg :: "jsnum \<Rightarrow> jsnum" where
  "num_neg NaN = NaN"
| "num_neg PInf = NInf"
| "num_neg NInf = PInf"
| "num_neg (Fin x) = Fin (- x)"

fun num_add :: "rounding \<Rightarrow> jsnum \<Rightarrow> jsnum \<Rightarrow> jsnum" where
  "num_add rnd NaN _ = NaN"
| "num_add rnd _ NaN = NaN"
| "num_add rnd PInf NInf = NaN"
| "num_add rnd NInf PInf = NaN"
| "num_add rnd PInf _ = PInf"
| "num_add rnd _ PInf = PInf"
| "num_add rnd NInf _ = NInf"
| "num_add rnd _ NInf = NInf"
| "num_add rnd (Fin x) (Fin y) = rnd (x + y)"

definition num_sub :: "rounding \<Rightarrow> jsnum \<Rightarrow> jsnum \<Rightarrow> jsnum" where
  "num_sub rnd a b = num_add rnd a (num_neg b)"

fun num_mul :: "rounding \<Rightarrow> jsnum \<Rightarrow> jsnum \<Rightarrow> jsnum" where
  "num_mul rnd NaN _ = NaN"
| "num_mul rnd _ NaN = NaN"
| "num_mul rnd (Fin x) (Fin y) = rnd (x * y)"
| "num_mul rnd (Fin x) PInf = (if x = 0 then NaN else signed_inf (x < 0))"
| "num_mul rnd (Fin x) NInf = (if x = 0 then NaN else signed_inf (0 < x))"
| "num_mul rnd PInf (Fin y) = (if y = 0 then NaN else signed_inf (y < 0))"
| "num_mul rnd NInf (Fin y) = (if y = 0 then NaN else signed_inf (0 < y))"
| "num_mul rnd PInf PInf = PInf"
| "num_mul rnd PInf NInf = NInf"
| "num_mul rnd NInf PInf = NInf"
| "num_mul rnd NInf NInf = PInf"

fun num_div :: "rounding \<Rightarrow> jsnum \<Rightarrow> jsnum \<Rightarrow> jsnum" where
  "num_div rnd NaN _ = NaN"
| "num_div rnd _ NaN = NaN"
| "num_div rnd (Fin x) (Fin y) =
     (if y = 0 then (if x = 0 then NaN else signed_inf (x < 0)) else rnd (x / y))"
| "num_div rnd (Fin x) PInf = Fin 0"
| "num_div rnd (Fin x) NInf = Fin 0"
| "num_div rnd PInf (Fin y) = signed_inf (y < 0)"
| "num_div rnd NInf (Fin y) = signed_inf (0 \<le> y)"
| "num_div rnd PInf PInf = NaN"
| "num_div rnd PInf NInf = NaN"
| "num_div rnd NInf PInf = NaN"
| "num_div rnd NInf NInf = NaN"

fun num_lt :: "jsnum \<Rightarrow> jsnum \<Rightarrow> bool" where
  "num_lt NaN _ = False"
| "num_lt _ NaN = False"
| "num_lt (Fin x) (Fin y) = (x < y)"
| "num_lt NInf NInf = False"
| "num_lt NInf _ = True"
| "num_lt _ NInf = False"
| "num_lt PInf _ = False"
| "num_lt (Fin x) PInf = True"

text \<open>
  The operators \<^verbatim>\<open>+ - * / <\<close> on values that are numbers or absent (no
  strings reach them in this program): both operands go through \<^verbatim>\<open>ToNumber\<close>.
\<close>

definition js_add :: "rounding \<Rightarrow> jsval \<Rightarrow> jsval \<Rightarrow> jsval" where
  "js_add rnd a b = Num (num_add rnd (ToNumber a) (ToNumber b))"

definition js_sub :: "rounding \<Rightarrow> jsval \<Rightarrow> jsval \<Rightarrow> jsval" where
  "js_sub rnd a b = Num (num_sub rnd (ToNumber a) (ToNumber b))"

definition js_mul :: "rounding \<Rightarrow> jsval \<Rightarrow> jsval \<Rightarrow> jsval" where
  "js_mul rnd a b = Num (num_mul rnd (ToNumber a) (ToNumber b))"

definition js_div :: "rounding \<Rightarrow> jsval \<Rightarrow> jsval \<Rightarrow> jsval" where
  "js_div rnd a b = Num (num_div rnd (ToNumber a) (ToNumber b))"

definition js_lt :: "jsval \<Rightarrow> jsval \<Rightarrow> bool" where
  "js_lt a b = num_lt (ToNumber a) (ToNumber b)"

text \<open>A number literal of the source: the double nearest to the decimal.\<close>

definition lit :: "rounding \<Rightarrow> rat \<Rightarrow> jsval" where
  "lit rnd x = Num (rnd x)"

section \<open>Crack spreads\<close>

text \<open>
  \<^verbatim>\<open>calculateCrack(crudePrice, productPrice)\<close>: 0 when an argument is falsy; a
  product below 10 is taken to be in dollars per gallon and multiplied by 42.
\<close>

definition calculateCrack :: "rounding \<Rightarrow> jsval \<Rightarrow> jsval \<Rightarrow> jsval" where
  "calculateCrack rnd crudePrice productPrice =
     (if \<not> truthy crudePrice \<or> \<not> truthy productPrice then lit rnd 0
      else let productBarrel =
                 (if js_lt productPrice (lit rnd 10) then js_mul rnd productPrice (lit rnd 42)
                  else productPrice)
           in js_sub rnd productBarrel crudePrice)"

text \<open>
  \<^verbatim>\<open>calculateCrack321(wti, rbob, ho)\<close>: 0 when an argument is falsy; both
  products are always multiplied by 42.
\<close>

definition calculateCrack321 ::
  "rounding \<Rightarrow> jsval \<Rightarrow> jsval \<Rightarrow> jsval \<Rightarrow> jsval" where
  "calculateCrack321 rnd wti rbob ho =
     (if \<not> truthy wti \<or> \<not> truthy rbob \<or> \<not> truthy ho then lit rnd 0
      else let rbobBarrel = js_mul rnd rbob (lit rnd 42);
               hoBarrel = js_mul rnd ho (lit rnd 42)
           in js_sub rnd
                (js_div rnd (js_add rnd (js_mul rnd (lit rnd 2) rbobBarrel) hoBarrel) (lit rnd 3))
                wti)"

section \<open>Quotes\<close>

record quote =
  price :: jsval
  change :: jsval
  changePercent :: jsval
  previousClose :: jsval

text \<open>\<^verbatim>\<open>data.key?.price\<close> on the object \<open>data\<close> of quotes by commodity key.\<close>

definition opt_price :: "quote option \<Rightarrow> jsval" where
  "opt_price q = (case q of None \<Rightarrow> Undefined | Some v \<Rightarrow> price v)"

subsection \<open>Estimated products\<close>

text \<open>
  The three estimators of the variant with estimated products. A falsy benchmark is
  replaced by a default; the offset and the change fields are constants.
\<close>

definition estimateFuelOil05 :: "rounding \<Rightarrow> jsval \<Rightarrow> quote" where
  "estimateFuelOil05 rnd brentPrice0 =
     (let brentPrice = (if \<not> truthy brentPrice0 then lit rnd (7180 / 100) else brentPrice0);
          premium = lit rnd 4;
          price' = js_add rnd brentPrice premium
      in \<lparr>price = price', change = lit rnd (50 / 100), changePercent = lit rnd (67 / 100),
          previousClose = js_sub rnd price' (lit rnd (50 / 100))\<rparr>)"

definition estimateFuelOil380 :: "rounding \<Rightarrow> jsval \<Rightarrow> quote" where
  "estimateFuelOil380 rnd brentPrice0 =
     (let brentPrice = (if \<not> truthy brentPrice0 then lit rnd (7180 / 100) else brentPrice0);
          discount = lit rnd 10;
          price' = js_sub rnd brentPrice discount
      in \<lparr>price = price', change = lit rnd (- (30 / 100)),
          changePercent = lit rnd (- (48 / 100)),
          previousClose = js_add rnd price' (lit rnd (30 / 100))\<rparr>)"

definition estimateGas92 :: "rounding \<Rightarrow> jsval \<Rightarrow> quote" where
  "estimateGas92 rnd rbobPrice0 =
     (let rbobPrice = (if \<not> truthy rbobPrice0 then lit rnd (228 / 100) else rbobPrice0);
          adjustment = lit rnd (- (2 / 100));
          price' = js_add rnd rbobPrice adjustment
      in \<lparr>price = price', change = lit rnd (3 / 100), changePercent = lit rnd (135 / 100),
          previousClose = js_sub rnd price' (lit rnd (3 / 100))\<rparr>)"

subsection \<open>Fallback quotes\<close>

definition zero_quote :: "rounding \<Rightarrow> quote" where
  "zero_quote rnd =
     \<lparr>price = lit rnd 0, change = lit rnd 0, changePercent = lit rnd 0,
      previousClose = lit rnd 0\<rparr>"

text \<open>\<^verbatim>\<open>mockPrices\<close> of \<^verbatim>\<open>server.js\<close> (four commodities).\<close>

definition mockPrices :: "rounding \<Rightarrow> (string \<times> quote) list" where
  "mockPrices rnd =
     [(''wti'', \<lparr>price = lit rnd (6650 / 100), change = lit rnd (80 / 100),
                 changePercent = lit rnd (122 / 100), previousClose = lit rnd (6570 / 100)\<rparr>),
      (''brent'', \<lparr>price = lit rnd (7180 / 100), change = lit rnd (90 / 100),
                   changePercent = lit rnd (127 / 100), previousClose = lit rnd (7090 / 100)\<rparr>),
      (''rbob'', \<lparr>price = lit rnd (228 / 100), change = lit rnd (4 / 100),
                  changePercent = lit rnd (179 / 100), previousClose = lit rnd (224 / 100)\<rparr>),
      (''ho'', \<lparr>price = lit rnd (255 / 100), change = lit rnd (- (3 / 100)),
                changePercent = lit rnd (- (116 / 100)), previousClose = lit rnd (258 / 100)\<rparr>)]"

text \<open>\<^verbatim>\<open>mockPrices\<close> of the variant with estimated products (no heating oil).\<close>

definition mockPrices_est :: "rounding \<Rightarrow> (string \<times> quote) list" where
  "mockPrices_est rnd =
     [(''wti'', \<lparr>price = lit rnd (6650 / 100), change = lit rnd (80 / 100),
                 changePercent = lit rnd (122 / 100), previousClose = lit rnd (6570 / 100)\<rparr>),
      (''brent'', \<lparr>price = lit rnd (7180 / 100), change = lit rnd (90 / 100),
                   changePercent = lit rnd (127 / 100), previousClose = lit rnd (7090 / 100)\<rparr>),
      (''rbob'', \<lparr>price = lit rnd (228 / 100), change = lit rnd (4 / 100),
                  changePercent = lit rnd (179 / 100), previousClose = lit rnd (224 / 100)\<rparr>)]"

text \<open>\<^verbatim>\<open>mockPrices[commodity] || {all zero}\<close>\<close>

definition getMockData :: "rounding \<Rightarrow> string \<Rightarrow> quote" where
  "getMockData rnd commodity =
     (case map_of (mockPrices rnd) commodity of Some q \<Rightarrow> q | None \<Rightarrow> zero_quote rnd)"

definition getMockData_est :: "rounding \<Rightarrow> string \<Rightarrow> quote" where
  "getMockData_est rnd commodity =
     (case map_of (mockPrices_est rnd) commodity of Some q \<Rightarrow> q | None \<Rightarrow> zero_quote rnd)"

subsection \<open>Fetched quotes\<close>

text \<open>
  The upstream answer to one chart request, as far as \<^verbatim>\<open>fetchYahooPrice\<close> reads it:
  the request is rejected (network error, timeout, error status), or it resolves to a
  body whose \<^verbatim>\<open>chart.result[0]\<close> is absent or holds \<^verbatim>\<open>meta\<close> and the series
  \<^verbatim>\<open>indicators.quote[0].close\<close>, each possibly absent.
\<close>

datatype error = Error string | TypeError string

record chart_meta =
  regularMarketPrice :: jsval
  meta_previousClose :: jsval

record chart_result =
  meta :: "chart_meta option"
  close :: "jsval list option"

datatype axios_response = Rejected string | Resolved "chart_result option"

text \<open>\<^verbatim>\<open>xs[i]\<close> on an array: \<^verbatim>\<open>undefined\<close> outside its indices.\<close>

definition js_index :: "jsval list \<Rightarrow> int \<Rightarrow> jsval" where
  "js_index xs i = (if 0 \<le> i \<and> i < int (length xs) then xs ! nat i else Undefined)"

definition fetchYahooPrice ::
  "rounding \<Rightarrow> (string \<Rightarrow> axios_response) \<Rightarrow> string \<Rightarrow> error + quote" where
  "fetchYahooPrice rnd axios_get symbol =
     (case axios_get symbol of
        Rejected msg \<Rightarrow> Inl (Error msg)
      | Resolved None \<Rightarrow> Inl (Error ''Invalid response structure'')
      | Resolved (Some result) \<Rightarrow>
          (case meta result of
             None \<Rightarrow> Inl (TypeError ''Cannot read properties of undefined'')
           | Some quote \<Rightarrow>
               let closes = (case close result of None \<Rightarrow> [] | Some cs \<Rightarrow> cs);
                   latestPrice0 = regularMarketPrice quote;
                   latestPrice =
                     (if \<not> truthy latestPrice0 \<or> latestPrice0 = lit rnd 0
                      then js_index closes (int (length closes) - 1) else latestPrice0);
                   previousClose' =
                     js_or (meta_previousClose quote) (js_index closes (int (length closes) - 2));
                   change' = js_sub rnd latestPrice previousClose';
                   changePercent' = js_mul rnd (js_div rnd change' previousClose') (lit rnd 100)
               in Inr \<lparr>price = latestPrice, change = change', changePercent = changePercent',
                       previousClose = previousClose'\<rparr>))"

section \<open>Assembling a snapshot\<close>

text \<open>
  A snapshot is the object \<^verbatim>\<open>fetchEnergyData\<close> returns: the timestamp, the quotes by
  key in the order of the object literal (a key whose quote is \<^verbatim>\<open>undefined\<close> maps to
  \<open>None\<close>), and the \<^verbatim>\<open>spreads\<close> object.
\<close>

record snapshot =
  timestamp :: string
  quotes :: "(string \<times> quote option) list"
  spreads :: "(string \<times> jsval) list"

text \<open>
  One round of the loop over \<^verbatim>\<open>Object.entries(symbols)\<close>: the fetched quote, or the
  fallback of the key when the fetch throws.
\<close>

definition fetch_or_mock ::
  "rounding \<Rightarrow> (string \<Rightarrow> quote) \<Rightarrow> (string \<Rightarrow> axios_response) \<Rightarrow> (string \<rightharpoonup> quote) \<Rightarrow> string \<times> string
     \<Rightarrow> (string \<rightharpoonup> quote)" where
  "fetch_or_mock rnd mock axios_get data entry =
     (case entry of (key, symbol) \<Rightarrow>
        (case fetchYahooPrice rnd axios_get symbol of
           Inr q \<Rightarrow> data(key \<mapsto> q)
         | Inl e \<Rightarrow> data(key \<mapsto> mock key)))"

text \<open>\<^verbatim>\<open>(data.brent?.price || 0) - (data.wti?.price || 0)\<close>, the same in both files.\<close>

definition brent_wti :: "rounding \<Rightarrow> (string \<rightharpoonup> quote) \<Rightarrow> jsval" where
  "brent_wti rnd data =
     js_sub rnd (js_or (opt_price (data ''brent'')) (lit rnd 0))
       (js_or (opt_price (data ''wti'')) (lit rnd 0))"

text \<open>\<^verbatim>\<open>data.key?.price ? (data.key.price * factor) : dflt\<close>\<close>

definition calendar_estimate ::
  "rounding \<Rightarrow> (string \<rightharpoonup> quote) \<Rightarrow> string \<Rightarrow> rat \<Rightarrow> rat \<Rightarrow> jsval" where
  "calendar_estimate rnd data key factor dflt =
     (if truthy (opt_price (data key)) then js_mul rnd (opt_price (data key)) (lit rnd factor)
      else lit rnd dflt)"

subsection \<open>\<^verbatim>\<open>fetchEnergyData\<close> of \<^verbatim>\<open>server.js\<close>\<close>

definition symbols :: "(string \<times> string) list" where
  "symbols = [(''wti'', ''CL=F''), (''brent'', ''BZ=F''), (''rbob'', ''RB=F''), (''ho'', ''HO=F'')]"

definition fetchEnergyData ::
  "rounding \<Rightarrow> (string \<Rightarrow> axios_response) \<Rightarrow> string \<Rightarrow> snapshot" where
  "fetchEnergyData rnd axios_get now_iso =
     (let data = foldl (fetch_or_mock rnd (getMockData rnd) axios_get) Map.empty symbols;
          spreads' =
            [(''brent_wti'', brent_wti rnd data),
             (''crack_321'',
                calculateCrack321 rnd (opt_price (data ''wti'')) (opt_price (data ''rbob''))
                  (opt_price (data ''ho''))),
             (''wti_m1m2'', calendar_estimate rnd data ''wti'' (8 / 1000) (50 / 100)),
             (''wti_m1m6'', calendar_estimate rnd data ''wti'' (35 / 1000) (230 / 100)),
             (''rbob_m1m2'', calendar_estimate rnd data ''rbob'' (1 / 100) (15 / 100)),
             (''ho_m1m2'', calendar_estimate rnd data ''ho'' (8 / 1000) (20 / 100))]
      in \<lparr>timestamp = now_iso,
          quotes = [(''wti'', data ''wti''), (''brent'', data ''brent''), (''rbob'', data ''rbob''),
                    (''heatingOil'', data ''ho'')],
          spreads = spreads'\<rparr>)"

subsection \<open>\<^verbatim>\<open>fetchEnergyData\<close> of the variant with estimated products\<close>

definition symbols_est :: "(string \<times> string) list" where
  "symbols_est = [(''wti'', ''CL=F''), (''brent'', ''BZ=F''), (''rbob'', ''RB=F'')]"

definition fetchEnergyData_est ::
  "rounding \<Rightarrow> (string \<Rightarrow> axios_response) \<Rightarrow> string \<Rightarrow> snapshot" where
  "fetchEnergyData_est rnd axios_get now_iso =
     (let data0 = foldl (fetch_or_mock rnd (getMockData_est rnd) axios_get) Map.empty symbols_est;
          data1 = data0(''fo05'' \<mapsto> estimateFuelOil05 rnd (opt_price (data0 ''brent'')));
          data2 = data1(''fo380'' \<mapsto> estimateFuelOil380 rnd (opt_price (data1 ''brent'')));
          data = data2(''gas92'' \<mapsto> estimateGas92 rnd (opt_price (data2 ''rbob'')));
          cracks =
            [(''crack_92'',
                calculateCrack rnd (opt_price (data ''brent'')) (opt_price (data ''gas92''))),
             (''crack_fo05'',
                calculateCrack rnd (opt_price (data ''brent'')) (opt_price (data ''fo05''))),
             (''crack_fo380'',
                calculateCrack rnd (opt_price (data ''brent'')) (opt_price (data ''fo380'')))];
          spreads' =
            [(''brent_wti'', brent_wti rnd data),
             (''wti_m1m2'', calendar_estimate rnd data ''wti'' (8 / 1000) (50 / 100)),
             (''wti_m1m6'', calendar_estimate rnd data ''wti'' (35 / 1000) (230 / 100)),
             (''rbob_m1m2'', calendar_estimate rnd data ''rbob'' (1 / 100) (15 / 100))] @ cracks
      in \<lparr>timestamp = now_iso,
          quotes = [(''wti'', data ''wti''), (''brent'', data ''brent''), (''rbob'', data ''rbob''),
                    (''gas92'', data ''gas92''), (''fo05'', data ''fo05''),
                    (''fo380'', data ''fo380'')],
          spreads = spreads'\<rparr>)"

section \<open>The cached endpoint\<close>

text \<open>
  The handler of \<^verbatim>\<open>GET /api/energy-data\<close> keeps the last snapshot and the time of
  the refresh that produced it. It runs in two parts: up to the \<^verbatim>\<open>await\<close> it
  answers from a fresh cache or starts a refresh; after the \<^verbatim>\<open>await\<close> it either
  stores and sends the new snapshot, or, in the \<^verbatim>\<open>catch\<close> block, sends the
  cached one if there is one and the 500 error otherwise. The refresh as written recovers
  every failure of a symbol with the fallback quote; the handler guards the call all the
  same, and the outcome of the refresh, a snapshot or an exception, is an input of the
  second part. Times are milliseconds as \<^verbatim>\<open>Date.now()\<close> gives them.
\<close>

record 'a cache =
  cachedData :: "'a option"
  lastFetch :: int

definition initial_cache :: "'a cache" where
  "initial_cache = \<lparr>cachedData = None, lastFetch = 0\<rparr>"

definition CACHE_DURATION :: int where
  "CACHE_DURATION = 5 * 60 * 1000"

datatype 'a body = Snapshot 'a | ErrorObj string

record 'a response =
  status :: nat
  body :: "'a body"

text \<open>\<^verbatim>\<open>res.json(x)\<close> and \<^verbatim>\<open>res.status(500).json({ error: msg })\<close>\<close>

definition res_json :: "'a \<Rightarrow> 'a response" where
  "res_json x = \<lparr>status = 200, body = Snapshot x\<rparr>"

definition res_error :: "string \<Rightarrow> 'a response" where
  "res_error msg = \<lparr>status = 500, body = ErrorObj msg\<rparr>"

text \<open>Before the \<^verbatim>\<open>await\<close>: the response from a fresh cache, or \<open>None\<close> to refresh.\<close>

definition handler_start :: "'a cache \<Rightarrow> int \<Rightarrow> 'a response option" where
  "handler_start c now =
     (case cachedData c of
        Some d \<Rightarrow> if now - lastFetch c < CACHE_DURATION then Some (res_json d) else None
      | None \<Rightarrow> None)"

text \<open>After the \<^verbatim>\<open>await\<close>, on the cache as it is then.\<close>

definition handler_resume :: "'a cache \<Rightarrow> int \<Rightarrow> error + 'a \<Rightarrow> 'a cache \<times> 'a response" where
  "handler_resume c now refresh =
     (case refresh of
        Inr data \<Rightarrow> (\<lparr>cachedData = Some data, lastFetch = now\<rparr>, res_json data)
      | Inl e \<Rightarrow>
          (case cachedData c of
             Some d \<Rightarrow> (c, res_json d)
           | None \<Rightarrow> (c, res_error ''Failed to fetch energy data'')))"

text \<open>
  One request served without interleaving: the new cache, the response and the number
  of calls of \<^verbatim>\<open>fetchEnergyData\<close> it made.
\<close>

definition handler :: "'a cache \<Rightarrow> int \<Rightarrow> error + 'a \<Rightarrow> 'a cache \<times> 'a response \<times> nat" where
  "handler c now refresh =
     (case handler_start c now of
        Some r \<Rightarrow> (c, r, 0)
      | None \<Rightarrow> (case handler_resume c now refresh of (c', r) \<Rightarrow> (c', r, 1)))"

text \<open>
  The same request with the refresh as an operation on the world outside the server:
  \<^verbatim>\<open>fetchEnergyData\<close> is called where the source calls it, after a stale or empty
  cache, and nowhere else; a call takes the world to the one after it and yields its
  outcome. The result holds the world after the request.
\<close>

definition handler_calling ::
  "'a cache \<Rightarrow> int \<Rightarrow> ('w \<Rightarrow> (error + 'a) \<times> 'w) \<Rightarrow> 'w \<Rightarrow> 'a cache \<times> 'a response \<times> 'w" where
  "handler_calling c now refresh w =
     (case handler_start c now of
        Some r \<Rightarrow> (c, r, w)
      | None \<Rightarrow>
          (case refresh w of
             (outcome, w') \<Rightarrow> (case handler_resume c now outcome of (c', r) \<Rightarrow> (c', r, w'))))"

text \<open>
  A world that counts the calls made so far: the call after \<open>n\<close> earlier ones has the
  outcome \<open>outcomes n\<close> and leaves \<open>Suc n\<close> calls made.
\<close>

definition counted :: "(nat \<Rightarrow> error + 'a) \<Rightarrow> nat \<Rightarrow> (error + 'a) \<times> nat" where
  "counted outcomes n = (outcomes n, Suc n)"

text \<open>
  The cache after a history of refreshes, each with the time its request read and its
  outcome, in the order in which they completed (requests answered from the cache write
  nothing).
\<close>

definition settle :: "'a cache \<Rightarrow> int \<times> (error + 'a) \<Rightarrow> 'a cache" where
  "settle c h = fst (handler_resume c (fst h) (snd h))"

definition cache_after :: "(int \<times> (error + 'a)) list \<Rightarrow> 'a cache" where
  "cache_after hist = foldl settle initial_cache hist"

text \<open>The snapshot of the latest successful refresh of a history, if any.\<close>

fun last_good :: "(int \<times> (error + 'a)) list \<Rightarrow> 'a option" where
  "last_good [] = None"
| "last_good (h # hs) =
     (case last_good hs of
        Some d \<Rightarrow> Some d
      | None \<Rightarrow> (case snd h of Inr d \<Rightarrow> Some d | Inl e \<Rightarrow> None))"

section \<open>Reference formulas and sample upstream answers\<close>

text \<open>
  The normalization rule as the specification words it: a product price below 10 is in
  dollars per gallon and is multiplied by 42, any other price is left as it is; and the
  3-2-1 crack \<open>((2 * RBOB_barrel + HeatingOil_barrel) / 3) - WTI\<close> computed with that rule.
\<close>

definition gallon_to_barrel :: "rounding \<Rightarrow> jsval \<Rightarrow> jsval" where
  "gallon_to_barrel rnd p = (if js_lt p (lit rnd 10) then js_mul rnd p (lit rnd 42) else p)"

definition crack321_shared_rule ::
  "rounding \<Rightarrow> jsval \<Rightarrow> jsval \<Rightarrow> jsval \<Rightarrow> jsval" where
  "crack321_shared_rule rnd wti rbob ho =
     (if \<not> truthy wti \<or> \<not> truthy rbob \<or> \<not> truthy ho then lit rnd 0
      else js_sub rnd
             (js_div rnd
                (js_add rnd (js_mul rnd (lit rnd 2) (gallon_to_barrel rnd rbob))
                   (gallon_to_barrel rnd ho))
                (lit rnd 3))
             wti)"

text \<open>
  The percentage the specification states for a quote,
  \<open>(price - previousClose) / previousClose * 100\<close>, and agreement of two finite
  numbers up to a tolerance.
\<close>

definition percent_of_close :: "rounding \<Rightarrow> quote \<Rightarrow> jsval" where
  "percent_of_close rnd q =
     js_mul rnd (js_div rnd (js_sub rnd (price q) (previousClose q)) (previousClose q))
       (lit rnd 100)"

text \<open>The difference \<open>price - previousClose\<close> of a quote.\<close>

definition price_minus_close :: "rounding \<Rightarrow> quote \<Rightarrow> jsval" where
  "price_minus_close rnd q = js_sub rnd (price q) (previousClose q)"

definition within_tolerance :: "rat \<Rightarrow> jsval \<Rightarrow> jsval \<Rightarrow> bool" where
  "within_tolerance tol a b =
     (case (a, b) of (Num (Fin x), Num (Fin y)) \<Rightarrow> \<bar>x - y\<bar> \<le> tol | _ \<Rightarrow> False)"

text \<open>
  An upstream that answers for Brent with a chart whose \<^verbatim>\<open>meta\<close> carries no price and
  that has no close series, and times out for every other symbol.
\<close>

definition upstream_brent_unpriced :: "string \<Rightarrow> axios_response" where
  "upstream_brent_unpriced symbol =
     (if symbol = ''BZ=F''
      then Resolved (Some \<lparr>meta = Some \<lparr>regularMarketPrice = Undefined,
                                         meta_previousClose = Undefined\<rparr>,
                            close = None\<rparr>)
      else Rejected ''timeout of 10000ms exceeded'')"

text \<open>An upstream whose previous close is 0 in \<^verbatim>\<open>meta\<close> and in the close series.\<close>

definition upstream_zero_close :: "string \<Rightarrow> axios_response" where
  "upstream_zero_close symbol =
     Resolved (Some \<lparr>meta = Some \<lparr>regularMarketPrice = num 50, meta_previousClose = num 0\<rparr>,
                     close = Some [num 0, num 50]\<rparr>)"

text \<open>An upstream with a price of 72 after a close of 70.\<close>

definition upstream_quoted :: "string \<Rightarrow> axios_response" where
  "upstream_quoted symbol =
     Resolved (Some \<lparr>meta = Some \<lparr>regularMarketPrice = num 72, meta_previousClose = num 70\<rparr>,
                     close = Some [num 70, num 72]\<rparr>)"

section \<open>Auxiliary facts\<close>

lemmas js_ops =
  js_lt_def js_mul_def js_sub_def js_add_def js_div_def num_sub_def js_or_def lit_def exact_def

lemmas estimator_defs = estimateFuelOil05_def estimateFuelOil380_def estimateGas92_def

lemmas handler_defs = handler_def handler_start_def handler_resume_def

subsection \<open>The error of rounding to a double\<close>

lemma bits_bounds: "0 < n \<Longrightarrow> 2 ^ (bits n - 1) \<le> n \<and> n < 2 ^ bits n"
proof (induction n rule: bits.induct)
  case (1 n)
  show ?case
  proof (cases "n div 2 = 0")
    case True
    with "1.prems" have "n = 1" by presburger
    then show ?thesis by (simp add: bits.simps)
  next
    case False
    with "1.prems" have pos: "0 < n div 2" by presburger
    from "1.IH" [OF _ pos] "1.prems"
    have ih: "2 ^ (bits (n div 2) - 1) \<le> n div 2" "n div 2 < 2 ^ bits (n div 2)" by auto
    have b: "bits n = Suc (bits (n div 2))" using "1.prems" by (subst bits.simps) simp
    have bpos: "0 < bits (n div 2)" using pos by (subst bits.simps) simp
    then obtain k where k: "bits (n div 2) = Suc k" by (cases "bits (n div 2)") auto
    from ih k have "2 * 2 ^ k \<le> 2 * (n div 2)" by simp
    also have "\<dots> \<le> n" by presburger
    finally have lo: "2 ^ (bits n - 1) \<le> n" using b k by simp
    from ih(2) have "n div 2 + 1 \<le> 2 ^ bits (n div 2)" by simp
    then have "2 * (n div 2) + 2 \<le> 2 * 2 ^ bits (n div 2)" by simp
    moreover have "n < 2 * (n div 2) + 2" by presburger
    ultimately have hi: "n < 2 ^ bits n" using b by simp
    from lo hi show ?thesis by simp
  qed
qed

lemma pow2_pos: "0 < pow2 e"
  by (simp add: pow2_def)

lemma exponent_le:
  assumes "0 < x"
  shows "pow2 (exponent x) \<le> x"
proof (cases "1 \<le> x")
  case True
  then have fl: "0 < \<lfloor>x\<rfloor>" by simp
  from bits_bounds [OF fl] have "2 ^ (bits \<lfloor>x\<rfloor> - 1) \<le> \<lfloor>x\<rfloor>" by simp
  then have "(2::rat) ^ (bits \<lfloor>x\<rfloor> - 1) \<le> of_int \<lfloor>x\<rfloor>"
    by (metis of_int_le_iff of_int_numeral of_int_power)
  also have "\<dots> \<le> x" by simp
  finally have le: "(2::rat) ^ (bits \<lfloor>x\<rfloor> - 1) \<le> x" .
  have bpos: "0 < bits \<lfloor>x\<rfloor>" using fl by (subst bits.simps) simp
  then have "nat (int (bits \<lfloor>x\<rfloor>) - 1) = bits \<lfloor>x\<rfloor> - 1" by simp
  with le True bpos show ?thesis by (simp add: exponent_def pow2_def)
next
  case False
  define k where "k = int (bits \<lfloor>1 / x\<rfloor>) - 1"
  from False assms have inv: "1 < 1 / x" by simp
  then have fl: "0 < \<lfloor>1 / x\<rfloor>" by simp
  have bpos: "0 < bits \<lfloor>1 / x\<rfloor>" using fl by (subst bits.simps) simp
  then have k0: "0 \<le> k" by (simp add: k_def)
  have ex: "exponent x = (if x = pow2 (- k) then - k else - k - 1)"
    using False by (simp add: exponent_def Let_def k_def)
  show ?thesis
  proof (cases "x = pow2 (- k)")
    case True
    with ex have "exponent x = - k" by simp
    then have "pow2 (exponent x) = pow2 (- k)" by simp
    with True show ?thesis by simp
  next
    case neq: False
    from bits_bounds [OF fl] have "\<lfloor>1 / x\<rfloor> < 2 ^ bits \<lfloor>1 / x\<rfloor>" by simp
    then have "1 / x < of_int (2 ^ bits \<lfloor>1 / x\<rfloor>)"
      using floor_less_iff by blast
    then have lt: "1 / x < 2 ^ bits \<lfloor>1 / x\<rfloor>" by simp
    have "1 / 2 ^ bits \<lfloor>1 / x\<rfloor> < x"
      using lt assms by (simp add: field_simps)
    moreover have "nat (- (- k - 1)) = bits \<lfloor>1 / x\<rfloor>" by (simp add: k_def)
    moreover have "pow2 (- k - 1) = 1 / 2 ^ nat (- (- k - 1))" using k0 by (simp add: pow2_def)
    ultimately have le: "pow2 (- k - 1) \<le> x" by simp
    from ex neq have "exponent x = - k - 1" by simp
    with le show ?thesis by simp
  qed
qed

lemma exponent_bound:
  assumes "0 < x" and "x < 2 ^ n"
  shows "exponent x < int n"
proof (rule ccontr)
  assume "\<not> exponent x < int n"
  then have big: "n \<le> nat (exponent x)" "0 \<le> exponent x" by simp_all
  then have "(2::rat) ^ n \<le> 2 ^ nat (exponent x)"
    by (intro power_increasing) simp_all
  also have "\<dots> = pow2 (exponent x)" using big by (simp add: pow2_def)
  also have "\<dots> \<le> x" using assms(1) by (rule exponent_le)
  finally show False using assms(2) by simp
qed

lemma round_half_even_error: "\<bar>of_int (round_half_even x) - x\<bar> \<le> 1 / 2"
proof -
  define f where "f = \<lfloor>x\<rfloor>"
  define d where "d = x - of_int f"
  have d: "0 \<le> d" "d < 1" unfolding d_def f_def by linarith+
  have x: "x = of_int f + d" by (simp add: d_def)
  have r: "round_half_even x =
      (if d < 1 / 2 then f else if 1 / 2 < d then f + 1 else if even f then f else f + 1)"
    by (simp add: round_half_even_def Let_def f_def d_def)
  consider "d < 1 / 2" | "1 / 2 < d" | "d = 1 / 2" by linarith
  then show ?thesis
  proof cases
    case 1
    with d r x show ?thesis by simp
  next
    case 2
    with d r x show ?thesis by simp
  next
    case 3
    with r x show ?thesis by (cases "even f") simp_all
  qed
qed

lemma binary64_error:
  assumes "\<bar>x\<bar> \<le> 2 ^ 21"
  shows "\<exists>y. binary64 x = Fin y \<and> \<bar>y - x\<bar> \<le> 1 / 2 ^ 32"
proof (cases "x = 0")
  case True
  then show ?thesis by (simp add: binary64_def)
next
  case False
  define e where "e = max (exponent \<bar>x\<bar>) (- 1022)"
  define ulp where "ulp = pow2 (e - 52)"
  define y where "y = of_int (round_half_even (x / ulp)) * ulp"
  have "\<bar>x\<bar> < 2 ^ 22" using assms by simp
  with False have "exponent \<bar>x\<bar> < int 22" by (intro exponent_bound) simp_all
  then have e: "e \<le> 21" "- 1022 \<le> e" by (simp_all add: e_def)
  have ulp_pos: "0 < ulp" by (simp add: ulp_def pow2_pos)
  have "31 \<le> nat (52 - e)" using e by simp
  then have "(2::rat) ^ 31 \<le> 2 ^ nat (52 - e)" by (intro power_increasing) simp_all
  moreover have "ulp = 1 / 2 ^ nat (52 - e)" using e by (simp add: ulp_def pow2_def)
  ultimately have ulp_le: "ulp \<le> 1 / 2 ^ 31" by (simp add: frac_le)
  have "\<bar>y - x\<bar> = ulp * \<bar>of_int (round_half_even (x / ulp)) - x / ulp\<bar>"
  proof -
    have "y - x = ulp * (of_int (round_half_even (x / ulp)) - x / ulp)"
      using ulp_pos by (simp add: y_def field_simps)
    then show ?thesis using ulp_pos by (simp add: abs_mult)
  qed
  also have "\<dots> \<le> ulp * (1 / 2)"
    using ulp_pos round_half_even_error [of "x / ulp"] by (intro mult_left_mono) simp_all
  also have "\<dots> \<le> 1 / 2 ^ 32" using ulp_le by simp
  finally have err: "\<bar>y - x\<bar> \<le> 1 / 2 ^ 32" .
  then have "\<bar>y - x\<bar> \<le> 1" by simp
  then have ybound: "\<bar>y\<bar> < 2 ^ 22" using assms by simp
  have "\<not> 1024 \<le> exponent \<bar>y\<bar>"
  proof (cases "y = 0")
    case True
    then show ?thesis by (simp add: exponent_def bits.simps pow2_def Let_def)
  next
    case False
    with ybound have "exponent \<bar>y\<bar> < int 22" by (intro exponent_bound) simp_all
    then show ?thesis by simp
  qed
  then have "binary64 x = Fin y"
    using False
    by (simp add: binary64_def Let_def e_def [symmetric] ulp_def [symmetric] y_def [symmetric])
  with err show ?thesis by blast
qed


text \<open>
  The rounding on known doubles: 0.1, the sum \<^verbatim>\<open>0.1 + 0.2\<close>, and the two ties
  next to \<open>2 ^ 53\<close>, which go to the even significand.
\<close>

lemma binary64_known_values:
  "binary64 (1 / 10) = Fin (3602879701896397 / 36028797018963968)"
  "js_add binary64 (lit binary64 (1 / 10)) (lit binary64 (2 / 10))
     = num (1351079888211149 / 4503599627370496)"
  "binary64 9007199254740993 = Fin 9007199254740992"
  "binary64 9007199254740995 = Fin 9007199254740996"
  by code_simp+

text \<open>Literals of the source that are doubles, and the doubles of those that are not.\<close>

lemma binary64_integers:
  "binary64 0 = Fin 0" "binary64 2 = Fin 2" "binary64 3 = Fin 3" "binary64 4 = Fin 4"
  "binary64 10 = Fin 10" "binary64 42 = Fin 42" "binary64 100 = Fin 100"
  by code_simp+

lemma binary64_half: "binary64 (50 / 100) = Fin (1 / 2)"
  by code_simp

lemma binary64_030:
  "binary64 (30 / 100) = Fin (5404319552844595 / 18014398509481984)"
  "binary64 (- (30 / 100)) = Fin (- (5404319552844595 / 18014398509481984))"
  by code_simp+

lemma binary64_003: "binary64 (3 / 100) = Fin (1080863910568919 / 36028797018963968)"
  by code_simp

lemma binary64_002: "binary64 (- (2 / 100)) = Fin (- (5764607523034235 / 288230376151711744))"
  by code_simp

lemma binary64_7180: "binary64 (7180 / 100) = Fin (5052475831956275 / 70368744177664)"
  by code_simp

lemma binary64_228: "binary64 (228 / 100) = Fin (5134103575202365 / 2251799813685248)"
  by code_simp


text \<open>
  Subtracting from \<open>p\<close> the double of \<open>p + c\<close> gives \<open>- c\<close> up to two roundings.
\<close>

lemma binary64_sub_back:
  assumes "\<bar>p\<bar> \<le> 2 ^ 20 + 16" and "\<bar>c\<bar> \<le> 1"
  shows "\<exists>q d. binary64 (p + c) = Fin q \<and> binary64 (p + - q) = Fin d
           \<and> \<bar>d - (- c)\<bar> \<le> 1 / 2 ^ 31"
proof -
  have small: "(1::rat) / 2 ^ 32 \<le> 1" "(1::rat) / 2 ^ 32 + 1 / 2 ^ 32 = 1 / 2 ^ 31"
    "(2::rat) ^ 20 + 16 + 1 \<le> 2 ^ 21" by simp_all
  have "\<bar>p + c\<bar> \<le> 2 ^ 21" using assms small(3) by linarith
  from binary64_error [OF this]
  obtain q where q: "binary64 (p + c) = Fin q" "\<bar>q - (p + c)\<bar> \<le> 1 / 2 ^ 32" by blast
  have "\<bar>p + - q\<bar> \<le> 2" using q(2) assms(2) small(1) by linarith
  then have "\<bar>p + - q\<bar> \<le> 2 ^ 21" by simp
  from binary64_error [OF this]
  obtain d where d: "binary64 (p + - q) = Fin d" "\<bar>d - (p + - q)\<bar> \<le> 1 / 2 ^ 32" by blast
  have "\<bar>d - (- c)\<bar> \<le> 1 / 2 ^ 32 + 1 / 2 ^ 32" using q(2) d(2) by linarith
  then have "\<bar>d - (- c)\<bar> \<le> 1 / 2 ^ 31" using small(2) by simp
  with q(1) d(1) show ?thesis by blast
qed

text \<open>A falsy benchmark is replaced by the default, whatever the rounding.\<close>

lemma estimator_default:
  assumes "\<not> truthy b"
  shows "estimateFuelOil05 rnd b = estimateFuelOil05 rnd (lit rnd (7180 / 100))"
    and "estimateFuelOil380 rnd b = estimateFuelOil380 rnd (lit rnd (7180 / 100))"
    and "estimateGas92 rnd b = estimateGas92 rnd (lit rnd (228 / 100))"
  using assms by (simp_all add: estimator_defs Let_def)

lemma estimateFuelOil05_binary64:
  assumes "\<bar>x\<bar> \<le> 2 ^ 20" and "x \<noteq> 0"
  shows "within_tolerance (1 / 2 ^ 31)
           (price_minus_close binary64 (estimateFuelOil05 binary64 (num x)))
           (change (estimateFuelOil05 binary64 (num x)))"
proof -
  have "\<bar>x + 4\<bar> \<le> 2 ^ 21" using assms(1) by simp
  from binary64_error [OF this]
  obtain p where p: "binary64 (x + 4) = Fin p" "\<bar>p - (x + 4)\<bar> \<le> 1 / 2 ^ 32" by blast
  have "(1::rat) / 2 ^ 32 \<le> 1" by simp
  then have "\<bar>p\<bar> \<le> 2 ^ 20 + 16" using p(2) assms(1) by linarith
  from binary64_sub_back [OF this, of "- (1 / 2)"]
  obtain q d where qd: "binary64 (p + - (1 / 2)) = Fin q" "binary64 (p + - q) = Fin d"
    "\<bar>d - (- (- (1 / 2)))\<bar> \<le> 1 / 2 ^ 31" by auto
  show ?thesis
    using assms(2) p(1) qd binary64_half
    by (simp add: estimateFuelOil05_def price_minus_close_def within_tolerance_def Let_def
        js_add_def js_sub_def num_sub_def lit_def binary64_integers)
qed

lemma estimateFuelOil380_binary64:
  assumes "\<bar>x\<bar> \<le> 2 ^ 20" and "x \<noteq> 0"
  shows "within_tolerance (1 / 2 ^ 31)
           (price_minus_close binary64 (estimateFuelOil380 binary64 (num x)))
           (change (estimateFuelOil380 binary64 (num x)))"
proof -
  define c :: rat where "c = 5404319552844595 / 18014398509481984"
  have c: "binary64 (30 / 100) = Fin c" "binary64 (- (30 / 100)) = Fin (- c)" "\<bar>c\<bar> \<le> 1"
    unfolding c_def by (rule binary64_030, rule binary64_030, simp)
  have "\<bar>x + - 10\<bar> \<le> 2 ^ 21" using assms(1) by simp
  from binary64_error [OF this]
  obtain p where p: "binary64 (x + - 10) = Fin p" "\<bar>p - (x + - 10)\<bar> \<le> 1 / 2 ^ 32" by blast
  have "(1::rat) / 2 ^ 32 \<le> 1" by simp
  then have "\<bar>p\<bar> \<le> 2 ^ 20 + 16" using p(2) assms(1) by linarith
  from binary64_sub_back [OF this c(3)]
  obtain q d where qd: "binary64 (p + c) = Fin q" "binary64 (p + - q) = Fin d"
    "\<bar>d - (- c)\<bar> \<le> 1 / 2 ^ 31" by auto
  show ?thesis
    using assms(2) p(1) qd c(1,2)
    by (simp add: estimateFuelOil380_def price_minus_close_def within_tolerance_def Let_def
        js_add_def js_sub_def num_sub_def lit_def binary64_integers)
qed

lemma estimateGas92_binary64:
  assumes "\<bar>x\<bar> \<le> 2 ^ 20" and "x \<noteq> 0"
  shows "within_tolerance (1 / 2 ^ 31)
           (price_minus_close binary64 (estimateGas92 binary64 (num x)))
           (change (estimateGas92 binary64 (num x)))"
proof -
  define a :: rat where "a = 5764607523034235 / 288230376151711744"
  define c :: rat where "c = 1080863910568919 / 36028797018963968"
  have a: "binary64 (- (2 / 100)) = Fin (- a)" unfolding a_def by (rule binary64_002)
  have c: "binary64 (3 / 100) = Fin c" "\<bar>- c\<bar> \<le> 1"
    unfolding c_def by (rule binary64_003, simp)
  have "\<bar>a\<bar> \<le> 1" "(2::rat) ^ 20 + 1 \<le> 2 ^ 21" by (simp_all add: a_def)
  then have "\<bar>x + - a\<bar> \<le> 2 ^ 21" using assms(1) by linarith
  from binary64_error [OF this]
  obtain p where p: "binary64 (x + - a) = Fin p" "\<bar>p - (x + - a)\<bar> \<le> 1 / 2 ^ 32" by blast
  have "(1::rat) / 2 ^ 32 \<le> 1" "\<bar>a\<bar> \<le> 1" by (simp_all add: a_def)
  then have "\<bar>p\<bar> \<le> 2 ^ 20 + 16" using p(2) assms(1) by linarith
  from binary64_sub_back [OF this c(2)]
  obtain q d where qd: "binary64 (p + - c) = Fin q" "binary64 (p + - q) = Fin d"
    "\<bar>d - (- (- c))\<bar> \<le> 1 / 2 ^ 31" by auto
  show ?thesis
    using assms(2) p(1) qd a c(1)
    by (simp add: estimateGas92_def price_minus_close_def within_tolerance_def Let_def
        js_add_def js_sub_def num_sub_def lit_def)
qed

subsection \<open>The cache over a history of refreshes\<close>

text \<open>The cache holds the snapshot of the latest successful refresh.\<close>

lemma cachedData_foldl_settle:
  "cachedData (foldl settle c hist) =
     (case last_good hist of Some d \<Rightarrow> Some d | None \<Rightarrow> cachedData c)"
proof (induction hist arbitrary: c)
  case Nil
  show ?case by simp
next
  case (Cons h hs)
  have "cachedData (settle c h) = (case snd h of Inr d \<Rightarrow> Some d | Inl e \<Rightarrow> cachedData c)"
    by (simp add: settle_def handler_resume_def split: sum.split option.split)
  with Cons.IH [of "settle c h"] show ?case
    by (simp split: option.split sum.split)
qed

lemma cachedData_cache_after: "cachedData (cache_after hist) = last_good hist"
  by (simp add: cache_after_def cachedData_foldl_settle initial_cache_def split: option.split)

lemma last_good_None: "(last_good hist = None) = (\<forall>h \<in> set hist. isl (snd h))"
  by (induction hist) (auto split: option.split sum.split simp: isl_def)

subsection \<open>The assembled spread\<close>

text \<open>The spread entry of both assemblies is \<open>brent_wti\<close> of the quotes of the loop.\<close>

lemma spreads_brent_wti:
  "map_of (spreads (fetchEnergyData rnd ax t)) ''brent_wti''
     = Some (brent_wti rnd (foldl (fetch_or_mock rnd (getMockData rnd) ax) Map.empty symbols))"
  by (simp add: fetchEnergyData_def Let_def)

lemma spreads_brent_wti_est:
  "map_of (spreads (fetchEnergyData_est rnd ax t)) ''brent_wti''
     = Some (brent_wti rnd
         (foldl (fetch_or_mock rnd (getMockData_est rnd) ax) Map.empty symbols_est))"
  by (simp add: fetchEnergyData_est_def Let_def brent_wti_def)

section \<open>The cache on a failed refresh and within the freshness window\<close>

text \<open>
  C1. When the refresh of a request fails and the cache holds a snapshot, the response is
  200 with that snapshot, and the cache is the one before. After any history of
  refreshes the failing request is answered with the snapshot of the latest successful
  refresh, or with 500 and the error object when there was none. A request is answered
  with 500 exactly when its refresh fails and no refresh of the history has produced a
  snapshot; every other response is a 200.
\<close>

theorem refresh_failure_response:
  "(cachedData c = Some d \<longrightarrow> handler_resume c now (Inl e) = (c, res_json d))
   \<and> snd (handler_resume (cache_after hist) now (Inl e)) =
        (case last_good hist of
           Some d \<Rightarrow> res_json d
         | None \<Rightarrow> res_error ''Failed to fetch energy data'')
   \<and> (status (fst (snd (handler (cache_after hist) now refresh))) = 500) =
        (isl refresh \<and> (\<forall>h \<in> set hist. isl (snd h)))
   \<and> (status (fst (snd (handler (cache_after hist) now refresh))) \<noteq> 500 \<longrightarrow>
        status (fst (snd (handler (cache_after hist) now refresh))) = 200)"
proof -
  have held: "cachedData c = Some d \<longrightarrow> handler_resume c now (Inl e) = (c, res_json d)"
    by (simp add: handler_resume_def)
  have served: "snd (handler_resume (cache_after hist) now (Inl e)) =
        (case last_good hist of
           Some d \<Rightarrow> res_json d
         | None \<Rightarrow> res_error ''Failed to fetch energy data'')"
    by (simp add: handler_resume_def cachedData_cache_after split: option.split)
  have code: "status (fst (snd (handler (cache_after hist) now refresh))) =
      (if isl refresh \<and> last_good hist = None then 500 else 200)"
    by (cases refresh; cases "last_good hist")
       (simp_all add: handler_defs cachedData_cache_after res_json_def res_error_def)
  show ?thesis using held served code by (simp add: last_good_None)
qed

theorem refresh_failure_response_witness:
  "handler_resume \<lparr>cachedData = Some (7::nat), lastFetch = 0\<rparr> 400000 (Inl (Error ''down''))
     = (\<lparr>cachedData = Some 7, lastFetch = 0\<rparr>, res_json 7)
   \<and> snd (handler_resume (cache_after [(0, Inl (Error ''down'')), (5, Inr (7::nat))]) 400000
          (Inl (Error ''down''))) = res_json 7
   \<and> snd (handler_resume (cache_after [(0, Inl (Error ''down''))]) 400000 (Inl (Error ''down'')))
        = (res_error ''Failed to fetch energy data'' :: nat response)
   \<and> status (fst (snd (handler (cache_after [(0, Inl (Error ''down''))]) 400000
          (Inl (Error ''down'') :: error + nat)))) = 500
   \<and> status (fst (snd (handler (cache_after [(0, Inl (Error ''down'')), (5, Inr (7::nat))]) 400000
          (Inl (Error ''down''))))) = 200"
  using refresh_failure_response [of "\<lparr>cachedData = Some (7::nat), lastFetch = 0\<rparr>" 7 400000
      "Error ''down''" "[(0, Inl (Error ''down'')), (5, Inr (7::nat))]" "Inl (Error ''down'')"]
    refresh_failure_response [of "\<lparr>cachedData = Some (7::nat), lastFetch = 0\<rparr>" 7 400000
      "Error ''down''" "[(0, Inl (Error ''down''))]" "Inl (Error ''down'')"]
  by (simp add: handler_defs cache_after_def settle_def initial_cache_def res_json_def
      res_error_def)

text \<open>
  C2. A request that finds a snapshot younger than the window of 5 minutes is answered
  with that snapshot, writes nothing and does not call \<^verbatim>\<open>fetchEnergyData\<close>: the world
  after the request is the world before it, and the count of calls stays. A request that
  finds a snapshot as old as the window or older calls it exactly once: the world after
  the request is the world after one call, the count of calls goes up by one, and the
  outcome of that call decides the rest; a snapshot is stored with the time of the request
  and sent, a failure leaves the cache and sends the stale snapshot. So it is 4 minutes
  and 6 minutes after a refresh at \<open>t0\<close>.
\<close>

theorem fresh_cache_served_without_fetch:
  "(cachedData c = Some d \<and> now - lastFetch c < CACHE_DURATION \<longrightarrow>
      handler c now refresh = (c, res_json d, 0)
      \<and> handler_calling c now fetch w = (c, res_json d, w)
      \<and> handler_calling c now (counted outcomes) n = (c, res_json d, n))
   \<and> (cachedData c = Some d \<and> CACHE_DURATION \<le> now - lastFetch c \<longrightarrow>
      snd (snd (handler c now refresh)) = 1
      \<and> handler c now (Inr x) = (\<lparr>cachedData = Some x, lastFetch = now\<rparr>, res_json x, 1)
      \<and> handler c now (Inl e) = (c, res_json d, 1)
      \<and> handler_calling c now fetch w
          = (fst (handler_resume c now (fst (fetch w))),
             snd (handler_resume c now (fst (fetch w))), snd (fetch w))
      \<and> handler_calling c now (counted outcomes) n
          = (case outcomes n of
               Inr y \<Rightarrow> (\<lparr>cachedData = Some y, lastFetch = now\<rparr>, res_json y, Suc n)
             | Inl err \<Rightarrow> (c, res_json d, Suc n)))
   \<and> CACHE_DURATION = 5 * 60 * 1000
   \<and> handler (fst (handler_resume c t0 (Inr d))) (t0 + 4 * 60 * 1000) refresh
       = (\<lparr>cachedData = Some d, lastFetch = t0\<rparr>, res_json d, 0)
   \<and> handler_calling (fst (handler_resume c t0 (Inr d))) (t0 + 4 * 60 * 1000)
        (counted outcomes) n
       = (\<lparr>cachedData = Some d, lastFetch = t0\<rparr>, res_json d, n)
   \<and> snd (snd (handler (fst (handler_resume c t0 (Inr d))) (t0 + 6 * 60 * 1000) refresh)) = 1
   \<and> handler (fst (handler_resume c t0 (Inr d))) (t0 + 6 * 60 * 1000) (Inr x)
       = (\<lparr>cachedData = Some x, lastFetch = t0 + 6 * 60 * 1000\<rparr>, res_json x, 1)
   \<and> handler_calling (fst (handler_resume c t0 (Inr d))) (t0 + 6 * 60 * 1000)
        (counted outcomes) n
       = (case outcomes n of
            Inr y \<Rightarrow> (\<lparr>cachedData = Some y, lastFetch = t0 + 6 * 60 * 1000\<rparr>, res_json y, Suc n)
          | Inl err \<Rightarrow> (\<lparr>cachedData = Some d, lastFetch = t0\<rparr>, res_json d, Suc n))"
  by (simp add: handler_defs handler_calling_def counted_def CACHE_DURATION_def
      split: sum.split option.split prod.split)

theorem fresh_cache_served_without_fetch_witness:
  "cachedData \<lparr>cachedData = Some (7::nat), lastFetch = 1000\<rparr> = Some 7
   \<and> (241000::int) - lastFetch \<lparr>cachedData = Some (7::nat), lastFetch = 1000\<rparr> < CACHE_DURATION
   \<and> handler \<lparr>cachedData = Some (7::nat), lastFetch = 1000\<rparr> 241000 (Inr 8)
       = (\<lparr>cachedData = Some 7, lastFetch = 1000\<rparr>, res_json 7, 0)
   \<and> handler_calling \<lparr>cachedData = Some (7::nat), lastFetch = 1000\<rparr> 241000
        (counted (\<lambda>k. Inr (k + 8))) 3
       = (\<lparr>cachedData = Some 7, lastFetch = 1000\<rparr>, res_json 7, 3)
   \<and> CACHE_DURATION \<le> (361000::int) - lastFetch \<lparr>cachedData = Some (7::nat), lastFetch = 1000\<rparr>
   \<and> handler \<lparr>cachedData = Some (7::nat), lastFetch = 1000\<rparr> 361000 (Inr 8)
       = (\<lparr>cachedData = Some 8, lastFetch = 361000\<rparr>, res_json 8, 1)
   \<and> handler \<lparr>cachedData = Some (7::nat), lastFetch = 1000\<rparr> 361000 (Inl (Error ''down''))
       = (\<lparr>cachedData = Some 7, lastFetch = 1000\<rparr>, res_json 7, 1)
   \<and> handler_calling \<lparr>cachedData = Some (7::nat), lastFetch = 1000\<rparr> 361000
        (counted (\<lambda>k. Inr (k + 8))) 3
       = (\<lparr>cachedData = Some 11, lastFetch = 361000\<rparr>, res_json 11, 4)"
  using fresh_cache_served_without_fetch
      [of "\<lparr>cachedData = Some (7::nat), lastFetch = 1000\<rparr>" 7 241000 "Inr 8"
        "counted (\<lambda>k. Inr (k + 8))" 3 "\<lambda>k. Inr (k + 8)" 3 8 "Error ''down''"]
    fresh_cache_served_without_fetch
      [of "\<lparr>cachedData = Some (7::nat), lastFetch = 1000\<rparr>" 7 361000 "Inr 8"
        "counted (\<lambda>k. Inr (k + 8))" 3 "\<lambda>k. Inr (k + 8)" 3 8 "Error ''down''"]
  by (simp add: CACHE_DURATION_def handler_defs handler_calling_def counted_def)

section \<open>Crack calculations\<close>

text \<open>
  C3. For a crude price \<open>c > 0\<close> and a product price \<open>p > 0\<close> the generic crack is
  \<open>p * 42 - c\<close> when \<open>p < 10\<close> and \<open>p - c\<close> when \<open>p \<ge> 10\<close>: as a number in exact
  arithmetic, and with each operation rounded in doubles. For crude 66.50 and product
  2.28 the product per barrel is 95.76 and the crack is 29.26 in exact arithmetic, and
  within \<open>1 / 10 ^ 12\<close> of them in doubles.
\<close>

theorem calculateCrack_formula:
  "(0 < c \<and> 0 < p \<longrightarrow>
      calculateCrack exact (num c) (num p) = num (if p < 10 then p * 42 - c else p - c)
      \<and> calculateCrack binary64 (num c) (num p)
          = (if p < 10 then js_sub binary64 (js_mul binary64 (num p) (num 42)) (num c)
             else js_sub binary64 (num p) (num c)))
   \<and> js_mul exact (num (228 / 100)) (num 42) = num (9576 / 100)
   \<and> calculateCrack exact (num (6650 / 100)) (num (228 / 100)) = num (2926 / 100)
   \<and> within_tolerance (1 / 10 ^ 12)
        (js_mul binary64 (lit binary64 (228 / 100)) (lit binary64 42)) (num (9576 / 100))
   \<and> within_tolerance (1 / 10 ^ 12)
        (calculateCrack binary64 (lit binary64 (6650 / 100)) (lit binary64 (228 / 100)))
        (num (2926 / 100))"
  apply (intro conjI)
  subgoal by (simp add: calculateCrack_def js_ops binary64_integers)
  subgoal by (simp add: js_ops)
  subgoal by (simp add: calculateCrack_def js_ops)
  subgoal by code_simp
  subgoal by code_simp
  done

theorem calculateCrack_formula_witness:
  "(0::rat) < 718 / 10 \<and> (0::rat) < 758 / 10
   \<and> calculateCrack exact (num (718 / 10)) (num (758 / 10)) = num 4
   \<and> calculateCrack exact (num (718 / 10)) (num (226 / 100)) = num (2312 / 100)"
  using calculateCrack_formula [of "718 / 10" "758 / 10"]
    calculateCrack_formula [of "718 / 10" "226 / 100"]
  by simp

text \<open>
  C4. For non-zero prices \<open>w\<close>, \<open>r\<close> and \<open>h\<close> of WTI, RBOB and heating oil the 3-2-1
  crack is \<open>((2 * (r * 42) + h * 42) / 3) - w\<close>: as a number in exact arithmetic, and
  with each operation rounded in doubles. For 66.50, 2.28 and 2.55 the products per
  barrel are 95.76 and 107.10 and the crack is 33.04 in exact arithmetic, and within
  \<open>1 / 10 ^ 12\<close> of them in doubles.
\<close>

theorem calculateCrack321_formula:
  "(w \<noteq> 0 \<and> r \<noteq> 0 \<and> h \<noteq> 0 \<longrightarrow>
      calculateCrack321 exact (num w) (num r) (num h) = num ((2 * (r * 42) + h * 42) / 3 - w)
      \<and> calculateCrack321 binary64 (num w) (num r) (num h)
          = js_sub binary64
              (js_div binary64
                 (js_add binary64 (js_mul binary64 (num 2) (js_mul binary64 (num r) (num 42)))
                    (js_mul binary64 (num h) (num 42)))
                 (num 3))
              (num w))
   \<and> js_mul exact (num (228 / 100)) (num 42) = num (9576 / 100)
   \<and> js_mul exact (num (255 / 100)) (num 42) = num (10710 / 100)
   \<and> calculateCrack321 exact (num (6650 / 100)) (num (228 / 100)) (num (255 / 100))
       = num (3304 / 100)
   \<and> within_tolerance (1 / 10 ^ 12)
        (js_mul binary64 (lit binary64 (255 / 100)) (lit binary64 42)) (num (10710 / 100))
   \<and> within_tolerance (1 / 10 ^ 12)
        (calculateCrack321 binary64 (lit binary64 (6650 / 100)) (lit binary64 (228 / 100))
           (lit binary64 (255 / 100)))
        (num (3304 / 100))"
  apply (intro conjI)
  subgoal by (simp add: calculateCrack321_def js_ops binary64_integers)
  subgoal by (simp add: js_ops)
  subgoal by (simp add: js_ops)
  subgoal by (simp add: calculateCrack321_def js_ops)
  subgoal by code_simp
  subgoal by code_simp
  done

theorem calculateCrack321_formula_witness:
  "(71::rat) \<noteq> 0 \<and> (2::rat) \<noteq> 0 \<and> (3::rat) \<noteq> 0
   \<and> calculateCrack321 exact (num 71) (num 2) (num 3) = num 27"
  using calculateCrack321_formula [of 71 2 3] by simp

text \<open>
  C5, as claimed, fails: for a product price of 12 the generic crack leaves the price
  as it is, and the 3-2-1 crack multiplies it by 42, so that it differs from the 3-2-1
  formula under the shared rule. The numbers are the same in doubles and in exact
  arithmetic.
\<close>

theorem crack_normalization_counterexample:
  "calculateCrack binary64 (num 100) (num 12) = num (12 - 100)
   \<and> calculateCrack321 binary64 (num 100) (num 12) (num 12) = num 404
   \<and> crack321_shared_rule binary64 (num 100) (num 12) (num 12) = num (- 88)
   \<and> calculateCrack321 binary64 (num 100) (num 12) (num 12)
       \<noteq> crack321_shared_rule binary64 (num 100) (num 12) (num 12)
   \<and> calculateCrack321 exact (num 100) (num 12) (num 12) = num 404
   \<and> crack321_shared_rule exact (num 100) (num 12) (num 12) = num (- 88)"
  apply (intro conjI)
  subgoal by code_simp
  subgoal by code_simp
  subgoal by code_simp
  subgoal by code_simp
  subgoal by (simp add: calculateCrack321_def js_ops)
  subgoal by (simp add: crack321_shared_rule_def gallon_to_barrel_def js_ops)
  done

text \<open>
  C5, amended. In either arithmetic the generic crack applies the rule (times 42 exactly
  below 10) to its product price, and the 3-2-1 crack multiplies both product prices by
  42 whatever they are; on non-zero prices, in exact arithmetic, the 3-2-1 crack equals
  the 3-2-1 formula under the rule exactly when both product prices are below 10.
\<close>

theorem crack_normalization:
  "calculateCrack rnd c p
     = (if \<not> truthy c \<or> \<not> truthy p then lit rnd 0 else js_sub rnd (gallon_to_barrel rnd p) c)
   \<and> calculateCrack321 rnd wti rbob ho
     = (if \<not> truthy wti \<or> \<not> truthy rbob \<or> \<not> truthy ho then lit rnd 0
        else js_sub rnd
               (js_div rnd
                  (js_add rnd (js_mul rnd (lit rnd 2) (js_mul rnd rbob (lit rnd 42)))
                     (js_mul rnd ho (lit rnd 42)))
                  (lit rnd 3))
               wti)
   \<and> (w \<noteq> 0 \<and> r \<noteq> 0 \<and> h \<noteq> 0 \<longrightarrow>
        calculateCrack321 exact (num w) (num r) (num h)
          = num ((2 * (r * 42) + h * 42) / 3 - w))
   \<and> (w \<noteq> 0 \<and> r \<noteq> 0 \<and> h \<noteq> 0 \<longrightarrow>
        (calculateCrack321 exact (num w) (num r) (num h)
           = crack321_shared_rule exact (num w) (num r) (num h))
          = (r < 10 \<and> h < 10))"
  by (simp add: calculateCrack_def calculateCrack321_def crack321_shared_rule_def
      gallon_to_barrel_def js_ops Let_def)

theorem crack_normalization_witness:
  "calculateCrack exact (num 70) (num 2) = js_sub exact (gallon_to_barrel exact (num 2)) (num 70)
   \<and> calculateCrack321 exact (num 71) (num 2) (num 3) = num 27
   \<and> calculateCrack321 exact (num 71) (num 2) (num 3)
       = crack321_shared_rule exact (num 71) (num 2) (num 3)
   \<and> calculateCrack321 exact (num 71) (num 2) (num 12)
       \<noteq> crack321_shared_rule exact (num 71) (num 2) (num 12)"
  using crack_normalization [of exact "num 70" "num 2" "num 71" "num 2" "num 3" 71 2 3]
    crack_normalization [of exact "num 70" "num 2" "num 71" "num 2" "num 12" 71 2 12]
  by (simp add: crack321_shared_rule_def gallon_to_barrel_def js_ops)

section \<open>The Brent-WTI spread\<close>

text \<open>
  C6, as claimed, fails: when Brent resolves without a price and WTI falls back to its
  mock quote of 66.50, the snapshot of either assembly has a \<^verbatim>\<open>brent_wti\<close> of -66.50,
  not 0; so has a quote object without a Brent entry.
\<close>

theorem brent_wti_counterexample:
  "map_of (quotes (fetchEnergyData binary64 upstream_brent_unpriced ''2024-01-01T00:00:00.000Z''))
        ''brent''
     = Some (Some \<lparr>price = Undefined, change = Num NaN, changePercent = Num NaN,
                    previousClose = Undefined\<rparr>)
   \<and> map_of (spreads (fetchEnergyData binary64 upstream_brent_unpriced
        ''2024-01-01T00:00:00.000Z'')) ''brent_wti'' = Some (num (- (6650 / 100)))
   \<and> map_of (spreads (fetchEnergyData_est binary64 upstream_brent_unpriced
        ''2024-01-01T00:00:00.000Z'')) ''brent_wti'' = Some (num (- (6650 / 100)))
   \<and> brent_wti binary64 [''wti'' \<mapsto> getMockData binary64 ''wti''] = num (- (6650 / 100))
   \<and> map_of (spreads (fetchEnergyData exact upstream_brent_unpriced
        ''2024-01-01T00:00:00.000Z'')) ''brent_wti'' = Some (num (- (6650 / 100)))"
  apply (intro conjI)
  subgoal by code_simp
  subgoal by code_simp
  subgoal by code_simp
  subgoal by code_simp
  subgoal
    by (simp add: fetchEnergyData_def symbols_def fetch_or_mock_def fetchYahooPrice_def
        upstream_brent_unpriced_def js_index_def getMockData_def mockPrices_def brent_wti_def
        opt_price_def js_ops Let_def)
  done

text \<open>
  C6, amended. In the snapshot of either assembly \<^verbatim>\<open>brent_wti\<close> is the spread of the
  quotes of the loop. In exact arithmetic that spread is \<open>brent.price - wti.price\<close> when
  both prices are present (finite and non-zero); a price that is absent or 0 counts as 0
  in the difference, so the spread is 0 when both are absent, \<open>- wti.price\<close> when only
  Brent is absent and \<open>brent.price\<close> when only WTI is absent. In doubles it is the
  rounded difference in each of these cases.
\<close>

theorem brent_wti_operands_default_to_zero:
  "(data ''brent'' = Some qb \<and> price qb = num b \<and> b \<noteq> 0
      \<and> data ''wti'' = Some qw \<and> price qw = num w \<and> w \<noteq> 0 \<longrightarrow>
        brent_wti exact data = num (b - w) \<and> brent_wti binary64 data = Num (binary64 (b - w)))
   \<and> (\<not> truthy (opt_price (data ''brent'')) \<and> \<not> truthy (opt_price (data ''wti'')) \<longrightarrow>
        brent_wti exact data = num 0 \<and> brent_wti binary64 data = num 0)
   \<and> (\<not> truthy (opt_price (data ''brent'')) \<and> data ''wti'' = Some qw \<and> price qw = num w \<longrightarrow>
        brent_wti exact data = num (- w) \<and> brent_wti binary64 data = Num (binary64 (- w)))
   \<and> (data ''brent'' = Some qb \<and> price qb = num b \<and> \<not> truthy (opt_price (data ''wti'')) \<longrightarrow>
        brent_wti exact data = num b \<and> brent_wti binary64 data = Num (binary64 b))
   \<and> map_of (spreads (fetchEnergyData rnd ax t)) ''brent_wti''
       = Some (brent_wti rnd (foldl (fetch_or_mock rnd (getMockData rnd) ax) Map.empty symbols))
   \<and> map_of (spreads (fetchEnergyData_est rnd ax t)) ''brent_wti''
       = Some (brent_wti rnd
           (foldl (fetch_or_mock rnd (getMockData_est rnd) ax) Map.empty symbols_est))"
  apply (intro conjI)
  subgoal by (simp add: brent_wti_def opt_price_def js_ops)
  subgoal by (simp add: brent_wti_def opt_price_def js_ops binary64_integers)
  subgoal by (simp add: brent_wti_def opt_price_def js_ops binary64_integers)
  subgoal by (simp add: brent_wti_def opt_price_def js_ops binary64_integers)
  subgoal by (rule spreads_brent_wti)
  subgoal by (rule spreads_brent_wti_est)
  done

theorem brent_wti_operands_default_to_zero_witness:
  "brent_wti exact [''brent'' \<mapsto> getMockData exact ''brent'', ''wti'' \<mapsto> getMockData exact ''wti'']
     = num (530 / 100)
   \<and> brent_wti exact Map.empty = num 0
   \<and> brent_wti exact [''wti'' \<mapsto> getMockData exact ''wti''] = num (- (6650 / 100))
   \<and> brent_wti exact [''brent'' \<mapsto> getMockData exact ''brent''] = num (7180 / 100)"
  using brent_wti_operands_default_to_zero
      [of "[''brent'' \<mapsto> getMockData exact ''brent'', ''wti'' \<mapsto> getMockData exact ''wti'']"
        "getMockData exact ''brent''" "7180 / 100" "getMockData exact ''wti''" "6650 / 100"]
    brent_wti_operands_default_to_zero
      [of "Map.empty" "getMockData exact ''brent''" 1 "getMockData exact ''wti''" 1]
    brent_wti_operands_default_to_zero
      [of "[''wti'' \<mapsto> getMockData exact ''wti'']"
        "getMockData exact ''brent''" "7180 / 100" "getMockData exact ''wti''" "6650 / 100"]
    brent_wti_operands_default_to_zero
      [of "[''brent'' \<mapsto> getMockData exact ''brent'']"
        "getMockData exact ''brent''" "7180 / 100" "getMockData exact ''wti''" "6650 / 100"]
  by (simp add: getMockData_def mockPrices_def opt_price_def brent_wti_def js_ops)

section \<open>The change fields of a quote\<close>

text \<open>
  C7, as claimed, fails. The estimate of fuel oil 0.5 from a Brent of 996 carries a
  \<^verbatim>\<open>changePercent\<close> of 0.67, more than 0.6 away from the percentage that its price
  and previous close give (100/1999 in exact arithmetic); with the default Brent the two
  are still more than 0.005 apart. The fallback quote of WTI carries 1.22, more than
  0.001 away from the percentage of its price and previous close. A fetched quote whose
  previous close is 0 has an infinite \<^verbatim>\<open>changePercent\<close>, not 0.
\<close>

theorem changePercent_counterexample:
  "changePercent (estimateFuelOil05 exact (num 996)) = num (67 / 100)
   \<and> percent_of_close exact (estimateFuelOil05 exact (num 996)) = num (100 / 1999)
   \<and> \<not> within_tolerance (6 / 10) (changePercent (estimateFuelOil05 binary64 (num 996)))
          (percent_of_close binary64 (estimateFuelOil05 binary64 (num 996)))
   \<and> \<not> within_tolerance (5 / 1000) (changePercent (estimateFuelOil05 binary64 Undefined))
          (percent_of_close binary64 (estimateFuelOil05 binary64 Undefined))
   \<and> \<not> within_tolerance (1 / 1000) (changePercent (getMockData exact ''wti''))
          (percent_of_close exact (getMockData exact ''wti''))
   \<and> fetchYahooPrice binary64 upstream_zero_close ''CL=F''
       = Inr \<lparr>price = num 50, change = num 50, changePercent = Num PInf, previousClose = num 0\<rparr>"
  apply (intro conjI)
  subgoal by (simp add: estimateFuelOil05_def js_ops Let_def)
  subgoal by (simp add: estimateFuelOil05_def percent_of_close_def js_ops Let_def)
  subgoal by code_simp
  subgoal by code_simp
  subgoal
    by (simp add: getMockData_def mockPrices_def percent_of_close_def within_tolerance_def
        js_ops)
  subgoal by code_simp
  done

text \<open>
  C7, amended. In either arithmetic a fetched quote has \<^verbatim>\<open>changePercent\<close> computed
  as \<open>(price - previousClose) / previousClose * 100\<close>, which in exact arithmetic, for a
  finite price \<open>p\<close> and a finite previous close \<open>c \<noteq> 0\<close>, is the number
  \<open>(p - c) / c * 100\<close>. The four fallback quotes carry constants within 0.005 of that
  value. The three estimated quotes carry the constants 0.67, -0.48 and 1.35 whatever
  the benchmark is.
\<close>

theorem changePercent_of_fetched_quote:
  "(fetchYahooPrice exact ax symbol = Inr q \<and> price q = num p \<and> previousClose q = num c
      \<and> c \<noteq> 0 \<longrightarrow> change q = num (p - c) \<and> changePercent q = num ((p - c) / c * 100))
   \<and> (fetchYahooPrice rnd ax symbol = Inr q' \<longrightarrow> changePercent q' = percent_of_close rnd q')
   \<and> within_tolerance (5 / 1000) (changePercent (getMockData exact ''wti''))
        (percent_of_close exact (getMockData exact ''wti''))
   \<and> within_tolerance (5 / 1000) (changePercent (getMockData exact ''brent''))
        (percent_of_close exact (getMockData exact ''brent''))
   \<and> within_tolerance (5 / 1000) (changePercent (getMockData exact ''rbob''))
        (percent_of_close exact (getMockData exact ''rbob''))
   \<and> within_tolerance (5 / 1000) (changePercent (getMockData exact ''ho''))
        (percent_of_close exact (getMockData exact ''ho''))
   \<and> changePercent (estimateFuelOil05 rnd b) = lit rnd (67 / 100)
   \<and> changePercent (estimateFuelOil380 rnd b) = lit rnd (- (48 / 100))
   \<and> changePercent (estimateGas92 rnd b) = lit rnd (135 / 100)"
proof -
  have fetched: "fetchYahooPrice r ax symbol = Inr k \<Longrightarrow>
      changePercent k = percent_of_close r k \<and> change k = js_sub r (price k) (previousClose k)"
    for r k
    by (auto simp add: fetchYahooPrice_def percent_of_close_def Let_def
        split: axios_response.splits option.splits)
  have mock:
    "within_tolerance (5 / 1000) (changePercent (getMockData exact ''wti''))
       (percent_of_close exact (getMockData exact ''wti''))"
    "within_tolerance (5 / 1000) (changePercent (getMockData exact ''brent''))
       (percent_of_close exact (getMockData exact ''brent''))"
    "within_tolerance (5 / 1000) (changePercent (getMockData exact ''rbob''))
       (percent_of_close exact (getMockData exact ''rbob''))"
    "within_tolerance (5 / 1000) (changePercent (getMockData exact ''ho''))
       (percent_of_close exact (getMockData exact ''ho''))"
    by (simp_all add: getMockData_def mockPrices_def percent_of_close_def within_tolerance_def
        js_ops)
  have est: "changePercent (estimateFuelOil05 rnd b) = lit rnd (67 / 100)"
    "changePercent (estimateFuelOil380 rnd b) = lit rnd (- (48 / 100))"
    "changePercent (estimateGas92 rnd b) = lit rnd (135 / 100)"
    by (simp_all add: estimator_defs Let_def)
  have closed: "fetchYahooPrice exact ax symbol = Inr q \<and> price q = num p
      \<and> previousClose q = num c \<and> c \<noteq> 0 \<longrightarrow>
        change q = num (p - c) \<and> changePercent q = num ((p - c) / c * 100)"
    using fetched [of exact q] by (auto simp add: percent_of_close_def js_ops)
  show ?thesis using fetched [of rnd q'] mock est closed by simp
qed

theorem changePercent_of_fetched_quote_witness:
  "fetchYahooPrice exact upstream_quoted ''CL=F''
     = Inr \<lparr>price = num 72, change = num 2, changePercent = num (20 / 7), previousClose = num 70\<rparr>
   \<and> (70::rat) \<noteq> 0 \<and> num (20 / 7) = num ((72 - 70) / 70 * 100)"
  using changePercent_of_fetched_quote [of upstream_quoted "''CL=F''"
      "\<lparr>price = num 72, change = num 2, changePercent = num (20 / 7), previousClose = num 70\<rparr>"
      72 70 exact
      "\<lparr>price = num 72, change = num 2, changePercent = num (20 / 7), previousClose = num 70\<rparr>"]
  by (simp add: fetchYahooPrice_def upstream_quoted_def js_ops Let_def)

section \<open>The estimators\<close>




section \<open>The cache after a failed refresh\<close>

text \<open>
  C9. A failed refresh writes neither the snapshot nor the time of the last refresh: the
  cache after it is the cache before it, also for the request as a whole. A later request
  whose time is a full window past the unchanged time of the last successful refresh is
  not answered from the cache: it calls \<^verbatim>\<open>fetchEnergyData\<close> once more.
\<close>

theorem failed_refresh_keeps_cache:
  "fst (handler_resume c now (Inl e)) = c
   \<and> fst (handler c now (Inl e)) = c
   \<and> (CACHE_DURATION \<le> now' - lastFetch c \<longrightarrow>
        handler_start (fst (handler_resume c now (Inl e))) now' = None
        \<and> snd (snd (handler (fst (handler c now (Inl e))) now' refresh)) = 1)"
  by (simp add: handler_defs split: sum.split option.split prod.split)

theorem failed_refresh_keeps_cache_witness:
  "fst (handler_resume \<lparr>cachedData = Some (7::nat), lastFetch = 1000\<rparr> 400000 (Inl (Error ''down'')))
     = \<lparr>cachedData = Some 7, lastFetch = 1000\<rparr>
   \<and> CACHE_DURATION \<le> 400001 - lastFetch \<lparr>cachedData = Some (7::nat), lastFetch = 1000\<rparr>
   \<and> handler_start (fst (handler_resume \<lparr>cachedData = Some (7::nat), lastFetch = 1000\<rparr> 400000
        (Inl (Error ''down'')))) 400001 = None
   \<and> snd (snd (handler (fst (handler \<lparr>cachedData = Some (7::nat), lastFetch = 1000\<rparr> 400000
        (Inl (Error ''down'')))) 400001 (Inr 8))) = 1"
  using failed_refresh_keeps_cache [of "\<lparr>cachedData = Some (7::nat), lastFetch = 1000\<rparr>" 400000
      "Error ''down''" 400001 "Inr 8"]
  by (simp add: CACHE_DURATION_def handler_defs)

section \<open>Consistency of the estimated change\<close>

text \<open>
  C10, as claimed, fails: the equality is not exact in doubles. With the default
  benchmark, gasoline 92 has a \<^verbatim>\<open>price - previousClose\<close> of 0.029999999999999805
  against a change of 0.03, and fuel oil 380 one of -0.29999999999999716 against -0.30.
\<close>

theorem estimator_change_counterexample:
  "price_minus_close binary64 (estimateGas92 binary64 Undefined)
     = num (67553994410557 / 2251799813685248)
   \<and> change (estimateGas92 binary64 Undefined) = num (1080863910568919 / 36028797018963968)
   \<and> price_minus_close binary64 (estimateGas92 binary64 Undefined)
       \<noteq> change (estimateGas92 binary64 Undefined)
   \<and> price_minus_close binary64 (estimateFuelOil380 binary64 Undefined)
       = num (- (21110623253299 / 70368744177664))
   \<and> change (estimateFuelOil380 binary64 Undefined)
       = num (- (5404319552844595 / 18014398509481984))
   \<and> price_minus_close binary64 (estimateFuelOil380 binary64 Undefined)
       \<noteq> change (estimateFuelOil380 binary64 Undefined)"
  apply (intro conjI)
  subgoal by code_simp
  subgoal by code_simp
  subgoal by code_simp
  subgoal by code_simp
  subgoal by code_simp
  subgoal by code_simp
  done

text \<open>
  C10, amended. For every benchmark that is absent or a finite number, the quote of each
  estimator satisfies \<open>price - previousClose = change\<close> in exact arithmetic: the previous
  close is the price minus the constant change. In doubles the two sides agree within
  \<open>1 / 2 ^ 31\<close> for every benchmark that is absent or of magnitude at most \<open>2 ^ 20\<close>.
\<close>

theorem estimator_change_consistent:
  "(b \<noteq> Num PInf \<and> b \<noteq> Num NInf \<longrightarrow>
     price_minus_close exact (estimateFuelOil05 exact b) = change (estimateFuelOil05 exact b)
     \<and> price_minus_close exact (estimateFuelOil380 exact b)
         = change (estimateFuelOil380 exact b)
     \<and> price_minus_close exact (estimateGas92 exact b) = change (estimateGas92 exact b))
   \<and> (\<not> truthy v \<or> v = num x \<and> \<bar>x\<bar> \<le> 2 ^ 20 \<longrightarrow>
     within_tolerance (1 / 2 ^ 31) (price_minus_close binary64 (estimateFuelOil05 binary64 v))
       (change (estimateFuelOil05 binary64 v))
     \<and> within_tolerance (1 / 2 ^ 31) (price_minus_close binary64 (estimateFuelOil380 binary64 v))
         (change (estimateFuelOil380 binary64 v))
     \<and> within_tolerance (1 / 2 ^ 31) (price_minus_close binary64 (estimateGas92 binary64 v))
         (change (estimateGas92 binary64 v)))"
proof -
  have exact_case: "b \<noteq> Num PInf \<and> b \<noteq> Num NInf \<longrightarrow>
     price_minus_close exact (estimateFuelOil05 exact b) = change (estimateFuelOil05 exact b)
     \<and> price_minus_close exact (estimateFuelOil380 exact b)
         = change (estimateFuelOil380 exact b)
     \<and> price_minus_close exact (estimateGas92 exact b) = change (estimateGas92 exact b)"
  proof (cases b)
    case (Num n)
    then show ?thesis
      by (cases n) (simp_all add: estimator_defs price_minus_close_def js_ops Let_def)
  qed (simp_all add: estimator_defs price_minus_close_def js_ops Let_def)
  have brent: "lit binary64 (7180 / 100) = num (5052475831956275 / 70368744177664)"
    unfolding lit_def binary64_7180 ..
  have rbob: "lit binary64 (228 / 100) = num (5134103575202365 / 2251799813685248)"
    unfolding lit_def binary64_228 ..
  have dflt: "within_tolerance (1 / 2 ^ 31)
       (price_minus_close binary64 (estimateFuelOil05 binary64 u))
       (change (estimateFuelOil05 binary64 u))
     \<and> within_tolerance (1 / 2 ^ 31) (price_minus_close binary64 (estimateFuelOil380 binary64 u))
         (change (estimateFuelOil380 binary64 u))
     \<and> within_tolerance (1 / 2 ^ 31) (price_minus_close binary64 (estimateGas92 binary64 u))
         (change (estimateGas92 binary64 u))" if "\<not> truthy u" for u
    unfolding estimator_default [OF that] brent rbob
    by (intro conjI estimateFuelOil05_binary64 estimateFuelOil380_binary64
        estimateGas92_binary64) simp_all
  have present: "within_tolerance (1 / 2 ^ 31)
       (price_minus_close binary64 (estimateFuelOil05 binary64 (num x)))
       (change (estimateFuelOil05 binary64 (num x)))
     \<and> within_tolerance (1 / 2 ^ 31)
         (price_minus_close binary64 (estimateFuelOil380 binary64 (num x)))
         (change (estimateFuelOil380 binary64 (num x)))
     \<and> within_tolerance (1 / 2 ^ 31) (price_minus_close binary64 (estimateGas92 binary64 (num x)))
         (change (estimateGas92 binary64 (num x)))" if "\<bar>x\<bar> \<le> 2 ^ 20"
  proof (cases "x = 0")
    case True
    then show ?thesis using dflt [of "num x"] by simp
  next
    case False
    with that show ?thesis
      by (intro conjI estimateFuelOil05_binary64 estimateFuelOil380_binary64
          estimateGas92_binary64)
  qed
  show ?thesis using exact_case dflt [of v] present by blast
qed

theorem estimator_change_consistent_witness:
  "num 80 \<noteq> Num PInf \<and> num 80 \<noteq> Num NInf
   \<and> price_minus_close exact (estimateFuelOil05 exact (num 80)) = num (50 / 100)
   \<and> price_minus_close exact (estimateFuelOil380 exact (num 80)) = num (- (30 / 100))
   \<and> price_minus_close exact (estimateGas92 exact Undefined) = num (3 / 100)
   \<and> \<bar>80::rat\<bar> \<le> 2 ^ 20
   \<and> within_tolerance (1 / 2 ^ 31) (price_minus_close binary64 (estimateGas92 binary64 (num 80)))
        (change (estimateGas92 binary64 (num 80)))
   \<and> within_tolerance (1 / 2 ^ 31) (price_minus_close binary64 (estimateGas92 binary64 Undefined))
        (change (estimateGas92 binary64 Undefined))"
  using estimator_change_consistent [of "num 80" "num 80" 80]
    estimator_change_consistent [of Undefined Undefined 0]
  by (simp add: estimator_defs price_minus_close_def js_ops Let_def)

end
